theory Spec2Isabelle
  imports Main "HOL-Library.AList"
begin

section \<open>Script repository (scripts/manager.py)\<close>

text \<open>
  The repository keeps three things on disk under its root directory: one file
  \<open>scripts/<name>.py\<close> per script, one file \<open>results/<name>.txt\<close> per stored result, and the
  document \<open>metadata.json\<close>.  A directory is modelled as a finite map from file names to file
  contents.  The metadata dictionary keeps Python's insertion order, so it is an association
  list handled with \<open>AList.update\<close> (replace in place, or append) and \<open>AList.delete\<close>.
  File-system failures (permissions, full disk) are outside the model: every read and write
  of an existing directory succeeds.
\<close>

subsection \<open>Data\<close>

text \<open>The exceptions that \<open>ScriptManager\<close> can raise, with their message or key.\<close>

datatype error = ValueError string | KeyError string

text \<open>
  One value of the metadata dictionary.  Timestamps are the ISO strings produced by
  \<open>datetime.now().isoformat()\<close>; \<open>last_executed\<close> is \<open>None\<close> until the first saved result.
  \<open>save_result\<close> reads the counter with \<open>.get("execution_count", 0)\<close>, so the key may be
  missing from an entry loaded from disk: that is \<open>execution_count = None\<close>.
\<close>

record entry =
  created :: string
  last_modified :: string
  last_executed :: "string option"
  execution_count :: "int option"

text \<open>What \<open>list_scripts\<close> returns per script: a copy of the entry with the key \<open>name\<close> added.\<close>

record script_info = entry +
  name :: string

record manager =
  scripts_path :: "string \<rightharpoonup> string"
  results_path :: "string \<rightharpoonup> string"
  metadata :: "(string \<times> entry) list"
  metadata_path :: "(string \<times> entry) list"

text \<open>
  \<open>scripts_path\<close> and \<open>results_path\<close> are the two directories, \<open>metadata\<close> is the dictionary
  held in memory and \<open>metadata_path\<close> is the content of \<open>metadata.json\<close>.
\<close>

definition script_path :: "string \<Rightarrow> string" where
  "script_path n = n @ ''.py''"

definition result_path :: "string \<Rightarrow> string" where
  "result_path n = n @ ''.txt''"

definition quoted :: "string \<Rightarrow> string" where
  "quoted n = CHR 0x27 # n @ [CHR 0x27]"

subsection \<open>Name validation\<close>

text \<open>The character class \<open>[a-zA-Z0-9_-]\<close>, by code point.\<close>

definition name_char :: "char \<Rightarrow> bool" where
  "name_char c =
     (let k = (of_char c :: nat)
      in (97 \<le> k \<and> k \<le> 122) \<or> (65 \<le> k \<and> k \<le> 90) \<or> (48 \<le> k \<and> k \<le> 57)
         \<or> c = CHR ''_'' \<or> c = CHR ''-'')"

text \<open>
  \<open>re.match(r'^[a-zA-Z0-9_-]+$', name)\<close>: the pattern is anchored at the start, the class
  is repeated greedily at least once, and \<open>$\<close> (without \<open>re.MULTILINE\<close>) succeeds at the end
  of the string and also just before a line feed that is the last character of the string.
  No character of the class is a line feed, so the greedy run is the only candidate.
\<close>

definition re_match_name :: "string \<Rightarrow> bool" where
  "re_match_name s =
     (let run = takeWhile name_char s; rest = dropWhile name_char s
      in run \<noteq> [] \<and> (rest = [] \<or> rest = [CHR 0x0A]))"

definition validate_script_name :: "string \<Rightarrow> error + string" where
  "validate_script_name n =
     (if \<not> re_match_name n
      then Inl (ValueError
        ''Script name can only contain letters, numbers, underscores, and hyphens'')
      else Inr n)"

subsection \<open>Operations\<close>

text \<open>
  Every operation returns the outcome together with the repository as the call leaves it:
  an exception raised after a write leaves that write in place.  The clock reading
  \<open>datetime.now().isoformat()\<close> is the parameter \<open>now\<close>.
\<close>

definition save_metadata :: "manager \<Rightarrow> manager" where
  "save_metadata s = s\<lparr>metadata_path := metadata s\<rparr>"

definition list_scripts :: "manager \<Rightarrow> script_info list" where
  "list_scripts s =
     map (\<lambda>(script_name, m).
        \<lparr>created = created m, last_modified = last_modified m,
         last_executed = last_executed m, execution_count = execution_count m,
         name = script_name\<rparr>) (metadata s)"

definition add_script :: "string \<Rightarrow> string \<Rightarrow> string \<Rightarrow> manager \<Rightarrow> (error + unit) \<times> manager" where
  "add_script now n content s =
     (case validate_script_name n of
        Inl e \<Rightarrow> (Inl e, s)
      | Inr n \<Rightarrow>
          if scripts_path s (script_path n) \<noteq> None
          then (Inl (ValueError (''Script '' @ quoted n @ '' already exists'')), s)
          else
            let s1 = s\<lparr>scripts_path := (scripts_path s)(script_path n \<mapsto> content)\<rparr>;
                s2 = s1\<lparr>metadata := AList.update n
                       \<lparr>created = now, last_modified = now,
                        last_executed = None, execution_count = Some 0\<rparr> (metadata s1)\<rparr>
            in (Inr (), save_metadata s2))"

definition edit_script :: "string \<Rightarrow> string \<Rightarrow> string \<Rightarrow> manager \<Rightarrow> (error + unit) \<times> manager" where
  "edit_script now n content s =
     (case validate_script_name n of
        Inl e \<Rightarrow> (Inl e, s)
      | Inr n \<Rightarrow>
          if scripts_path s (script_path n) = None
          then (Inl (ValueError (''Script '' @ quoted n @ '' not found'')), s)
          else
            let s1 = s\<lparr>scripts_path := (scripts_path s)(script_path n \<mapsto> content)\<rparr>
            in (case map_of (metadata s1) n of
                  None \<Rightarrow> (Inl (KeyError n), s1)
                | Some m \<Rightarrow>
                    (Inr (), save_metadata
                       (s1\<lparr>metadata := AList.update n (m\<lparr>last_modified := now\<rparr>) (metadata s1)\<rparr>))))"

definition get_script :: "string \<Rightarrow> manager \<Rightarrow> (error + string) \<times> manager" where
  "get_script n s =
     (case validate_script_name n of
        Inl e \<Rightarrow> (Inl e, s)
      | Inr n \<Rightarrow>
          (case scripts_path s (script_path n) of
             None \<Rightarrow> (Inl (ValueError (''Script '' @ quoted n @ '' not found'')), s)
           | Some content \<Rightarrow> (Inr content, s)))"

definition remove_script :: "string \<Rightarrow> manager \<Rightarrow> (error + unit) \<times> manager" where
  "remove_script n s =
     (case validate_script_name n of
        Inl e \<Rightarrow> (Inl e, s)
      | Inr n \<Rightarrow>
          if scripts_path s (script_path n) = None
          then (Inl (ValueError (''Script '' @ quoted n @ '' not found'')), s)
          else
            let s1 = s\<lparr>scripts_path := (scripts_path s)(script_path n := None)\<rparr>;
                s2 = (if results_path s1 (result_path n) \<noteq> None
                      then s1\<lparr>results_path := (results_path s1)(result_path n := None)\<rparr>
                      else s1)
            in if map_of (metadata s2) n \<noteq> None
               then (Inr (), save_metadata (s2\<lparr>metadata := AList.delete n (metadata s2)\<rparr>))
               else (Inr (), s2))"

text \<open>\<open>self.metadata[name].get("execution_count", 0)\<close>.\<close>

definition get_execution_count :: "entry \<Rightarrow> int" where
  "get_execution_count m = (case execution_count m of None \<Rightarrow> 0 | Some c \<Rightarrow> c)"

definition save_result :: "string \<Rightarrow> string \<Rightarrow> string \<Rightarrow> manager \<Rightarrow> (error + unit) \<times> manager" where
  "save_result now n result s =
     (case validate_script_name n of
        Inl e \<Rightarrow> (Inl e, s)
      | Inr n \<Rightarrow>
          let s1 = s\<lparr>results_path := (results_path s)(result_path n \<mapsto> result)\<rparr>
          in (case map_of (metadata s1) n of
                None \<Rightarrow> (Inr (), s1)
              | Some m \<Rightarrow>
                  let m1 = m\<lparr>last_executed := Some now\<rparr>;
                      m2 = m1\<lparr>execution_count := Some (get_execution_count m1 + 1)\<rparr>
                  in (Inr (), save_metadata (s1\<lparr>metadata := AList.update n m2 (metadata s1)\<rparr>))))"

definition get_result :: "string \<Rightarrow> manager \<Rightarrow> (error + string) \<times> manager" where
  "get_result n s =
     (case validate_script_name n of
        Inl e \<Rightarrow> (Inl e, s)
      | Inr n \<Rightarrow>
          (case results_path s (result_path n) of
             None \<Rightarrow> (Inr (''No execution results found for script '' @ quoted n), s)
           | Some text \<Rightarrow> (Inr text, s)))"

section \<open>Execution harness (blender/executor.py)\<close>

text \<open>
  The harness writes an envelope script into its scratch directory, starts Blender on it
  with \<open>subprocess.run\<close>, reads the output file the envelope leaves behind and deletes both
  files.  The file system is a map from paths to contents.  Blender itself is outside the
  program: it is the parameter \<open>run\<close>, which receives the command line and the file system
  and gives back either the exception \<open>subprocess.run\<close> raised or the completed process,
  together with the file system as the process left it.
\<close>

subsection \<open>Data\<close>






text \<open>\<open>str\<close> of an integer, as the f-string formats \<open>self.timeout\<close>.\<close>

fun str_nat :: "nat \<Rightarrow> string" where
  "str_nat k = (if k < 10 then [char_of (48 + k)]
                else str_nat (k div 10) @ [char_of (48 + k mod 10)])"

declare str_nat.simps [simp del]



subsection \<open>The envelope\<close>




subsection \<open>Running the envelope\<close>






section \<open>Notions used to state the properties\<close>

subsection \<open>Agreement of script files and metadata\<close>

text \<open>
  The data model asks that a script's file and its metadata entry exist together.  The
  predicate says so for every name at once.
\<close>

definition consistent :: "manager \<Rightarrow> bool" where
  "consistent s \<longleftrightarrow>
     (\<forall>n. (map_of (metadata s) n \<noteq> None) = (scripts_path s (script_path n) \<noteq> None))"

subsection \<open>Reading a decimal numeral back\<close>

text \<open>The number a string of decimal digits denotes, to check \<open>str_nat\<close> against.\<close>

definition digits_value :: "string \<Rightarrow> nat" where
  "digits_value ds = foldl (\<lambda>a c. 10 * a + (of_char c - 48)) 0 ds"

subsection \<open>Lines of a script\<close>






section \<open>Example states\<close>

text \<open>
  \<open>repo1\<close> holds the one script \<open>t1\<close>, added at time \<open>d0\<close> and never executed; \<open>repo2\<close> is
  \<open>repo1\<close> after one saved result.  \<open>orphan_repo\<close> has a script file without a metadata
  entry, \<open>dangling_repo\<close> a metadata entry without a script file.
\<close>

definition repo1 :: manager where
  "repo1 = \<lparr>scripts_path = [''t1.py'' \<mapsto> ''print(1)''], results_path = Map.empty,
     metadata = [(''t1'', \<lparr>created = ''d0'', last_modified = ''d0'', last_executed = None,
                           execution_count = Some 0\<rparr>)],
     metadata_path = [(''t1'', \<lparr>created = ''d0'', last_modified = ''d0'', last_executed = None,
                           execution_count = Some 0\<rparr>)]\<rparr>"

definition empty_repo :: manager where
  "empty_repo = \<lparr>scripts_path = Map.empty, results_path = Map.empty,
     metadata = [], metadata_path = []\<rparr>"

definition orphan_repo :: manager where
  "orphan_repo = \<lparr>scripts_path = [''a.py'' \<mapsto> ''x''], results_path = Map.empty,
     metadata = [], metadata_path = []\<rparr>"

definition dangling_repo :: manager where
  "dangling_repo = \<lparr>scripts_path = Map.empty, results_path = Map.empty,
     metadata = [(''a'', \<lparr>created = ''d0'', last_modified = ''d0'', last_executed = None,
                          execution_count = Some 0\<rparr>)],
     metadata_path = [(''a'', \<lparr>created = ''d0'', last_modified = ''d0'', last_executed = None,
                          execution_count = Some 0\<rparr>)]\<rparr>"

definition repo2 :: manager where
  "repo2 = snd (save_result ''d1'' ''t1'' ''hi'' repo1)"






section \<open>Properties of the repository\<close>

subsection \<open>Each operation, case by case\<close>

lemma script_path_inj: "script_path a = script_path b \<longleftrightarrow> a = b"
  by (simp add: script_path_def)

lemma result_path_inj: "result_path a = result_path b \<longleftrightarrow> a = b"
  by (simp add: result_path_def)

lemma validate_accepted: "re_match_name n \<Longrightarrow> validate_script_name n = Inr n"
  by (simp add: validate_script_name_def)

lemma validate_rejected:
  "\<not> re_match_name n \<Longrightarrow> validate_script_name n = Inl (ValueError
        ''Script name can only contain letters, numbers, underscores, and hyphens'')"
  by (simp add: validate_script_name_def)

lemma re_match_t1: "re_match_name ''t1''"
  by (simp add: re_match_name_def name_char_def)

lemma add_script_fresh:
  assumes "re_match_name n" and "scripts_path s (script_path n) = None"
  shows "add_script now n content s =
    (Inr (), s\<lparr>scripts_path := (scripts_path s)(script_path n \<mapsto> content),
               metadata := AList.update n
                 \<lparr>created = now, last_modified = now, last_executed = None,
                  execution_count = Some 0\<rparr> (metadata s),
               metadata_path := AList.update n
                 \<lparr>created = now, last_modified = now, last_executed = None,
                  execution_count = Some 0\<rparr> (metadata s)\<rparr>)"
  using assms by (simp add: add_script_def validate_accepted save_metadata_def Let_def)

lemma add_script_present:
  assumes "re_match_name n" and "scripts_path s (script_path n) \<noteq> None"
  shows "add_script now n content s =
    (Inl (ValueError (''Script '' @ quoted n @ '' already exists'')), s)"
  using assms by (simp add: add_script_def validate_accepted)

lemma edit_script_absent:
  assumes "re_match_name n" and "scripts_path s (script_path n) = None"
  shows "edit_script now n content s =
    (Inl (ValueError (''Script '' @ quoted n @ '' not found'')), s)"
  using assms by (simp add: edit_script_def validate_accepted)

lemma edit_script_present:
  assumes "re_match_name n" and "scripts_path s (script_path n) \<noteq> None"
    and "map_of (metadata s) n = Some m"
  shows "edit_script now n content s =
    (Inr (), s\<lparr>scripts_path := (scripts_path s)(script_path n \<mapsto> content),
               metadata := AList.update n (m\<lparr>last_modified := now\<rparr>) (metadata s),
               metadata_path := AList.update n (m\<lparr>last_modified := now\<rparr>) (metadata s)\<rparr>)"
  using assms by (auto simp add: edit_script_def validate_accepted save_metadata_def Let_def)

lemma edit_script_orphan:
  assumes "re_match_name n" and "scripts_path s (script_path n) \<noteq> None"
    and "map_of (metadata s) n = None"
  shows "edit_script now n content s =
    (Inl (KeyError n), s\<lparr>scripts_path := (scripts_path s)(script_path n \<mapsto> content)\<rparr>)"
  using assms by (auto simp add: edit_script_def validate_accepted Let_def)

lemma get_script_present:
  assumes "re_match_name n" and "scripts_path s (script_path n) = Some content"
  shows "get_script n s = (Inr content, s)"
  using assms by (simp add: get_script_def validate_accepted)

lemma get_script_absent:
  assumes "re_match_name n" and "scripts_path s (script_path n) = None"
  shows "get_script n s = (Inl (ValueError (''Script '' @ quoted n @ '' not found'')), s)"
  using assms by (simp add: get_script_def validate_accepted)

lemma get_script_state: "snd (get_script n s) = s"
  by (simp add: get_script_def split: sum.splits option.splits)

lemma remove_script_absent:
  assumes "re_match_name n" and "scripts_path s (script_path n) = None"
  shows "remove_script n s =
    (Inl (ValueError (''Script '' @ quoted n @ '' not found'')), s)"
  using assms by (simp add: remove_script_def validate_accepted)

lemma remove_script_present:
  assumes "re_match_name n" and "scripts_path s (script_path n) \<noteq> None"
  shows "fst (remove_script n s) = Inr ()"
    and "scripts_path (snd (remove_script n s)) = (scripts_path s)(script_path n := None)"
    and "results_path (snd (remove_script n s)) = (results_path s)(result_path n := None)"
    and "map_of (metadata (snd (remove_script n s))) = (map_of (metadata s))(n := None)"
  using assms
  by (auto simp add: remove_script_def validate_accepted save_metadata_def Let_def
        delete_conv' fun_eq_iff)

lemma save_result_present:
  assumes "re_match_name n" and "map_of (metadata s) n = Some m"
  shows "save_result now n result s =
    (Inr (), s\<lparr>results_path := (results_path s)(result_path n \<mapsto> result),
               metadata := AList.update n
                 (m\<lparr>last_executed := Some now,
                    execution_count := Some (get_execution_count m + 1)\<rparr>) (metadata s),
               metadata_path := AList.update n
                 (m\<lparr>last_executed := Some now,
                    execution_count := Some (get_execution_count m + 1)\<rparr>) (metadata s)\<rparr>)"
  using assms
  by (simp add: save_result_def validate_accepted save_metadata_def Let_def get_execution_count_def)

lemma save_result_absent:
  assumes "re_match_name n" and "map_of (metadata s) n = None"
  shows "save_result now n result s =
    (Inr (), s\<lparr>results_path := (results_path s)(result_path n \<mapsto> result)\<rparr>)"
  using assms by (simp add: save_result_def validate_accepted Let_def)


lemma get_result_absent:
  assumes "re_match_name n" and "results_path s (result_path n) = None"
  shows "get_result n s = (Inr (''No execution results found for script '' @ quoted n), s)"
  using assms by (simp add: get_result_def validate_accepted)

lemma get_result_present:
  assumes "re_match_name n" and "results_path s (result_path n) = Some r"
  shows "get_result n s = (Inr r, s)"
  using assms by (simp add: get_result_def validate_accepted)

lemma get_result_state: "snd (get_result n s) = s"
  by (simp add: get_result_def split: sum.splits option.splits)

subsection \<open>Name validation\<close>

text \<open>
  What the regular expression accepts: a non-empty run of class characters, optionally
  followed by one final line feed.
\<close>

lemma not_name_char_LF: "\<not> name_char (CHR 0x0A)"
  by (simp add: name_char_def)

lemma re_match_name_iff:
  "re_match_name n \<longleftrightarrow>
     (\<exists>m. m \<noteq> [] \<and> list_all name_char m \<and> (n = m \<or> n = m @ [CHR 0x0A]))"
proof
  assume a: "re_match_name n"
  let ?m = "takeWhile name_char n"
  have "n = ?m @ dropWhile name_char n" by simp
  moreover have "list_all name_char ?m"
    by (simp add: list_all_iff) (meson set_takeWhileD)
  ultimately show "\<exists>m. m \<noteq> [] \<and> list_all name_char m \<and> (n = m \<or> n = m @ [CHR 0x0A])"
    using a unfolding re_match_name_def Let_def
    by (metis append_Nil2)
next
  assume "\<exists>m. m \<noteq> [] \<and> list_all name_char m \<and> (n = m \<or> n = m @ [CHR 0x0A])"
  then obtain m where m: "m \<noteq> []" "list_all name_char m" "n = m \<or> n = m @ [CHR 0x0A]"
    by blast
  from m(2) have all: "\<And>x. x \<in> set m \<Longrightarrow> name_char x"
    by (simp add: list_all_iff)
  from m(3) show "re_match_name n"
  proof
    assume "n = m"
    with m(1) all show ?thesis
      by (simp add: re_match_name_def Let_def takeWhile_eq_all_conv[THEN iffD2] dropWhile_eq_Nil_conv)
  next
    assume "n = m @ [CHR 0x0A]"
    with m(1) all show ?thesis
      by (simp add: re_match_name_def Let_def takeWhile_append2 dropWhile_append2 not_name_char_LF)
  qed
qed

text \<open>
  A name with a character outside the class that is not a line feed is rejected, wherever the
  character stands: this covers \<open>/\<close>, the space and the dot.
\<close>

lemma other_char_rejected:
  assumes "c \<in> set n" and "\<not> name_char c" and "c \<noteq> CHR 0x0A"
  shows "\<not> re_match_name n"
  using assms unfolding re_match_name_iff
  by (auto simp: list_all_iff)

text \<open>
  A rejected name stops every operation at its first statement: the \<open>ValueError\<close> of the
  validator is the outcome and the repository is returned as it was.
\<close>

lemma rejected_name_no_effect:
  assumes "\<not> re_match_name n"
  shows "add_script now n c s = (Inl (ValueError
           ''Script name can only contain letters, numbers, underscores, and hyphens''), s)"
    and "edit_script now n c s = (Inl (ValueError
           ''Script name can only contain letters, numbers, underscores, and hyphens''), s)"
    and "get_script n s = (Inl (ValueError
           ''Script name can only contain letters, numbers, underscores, and hyphens''), s)"
    and "remove_script n s = (Inl (ValueError
           ''Script name can only contain letters, numbers, underscores, and hyphens''), s)"
    and "save_result now n r s = (Inl (ValueError
           ''Script name can only contain letters, numbers, underscores, and hyphens''), s)"
    and "get_result n s = (Inl (ValueError
           ''Script name can only contain letters, numbers, underscores, and hyphens''), s)"
  using assms
  by (simp_all add: add_script_def edit_script_def get_script_def remove_script_def
        save_result_def get_result_def validate_rejected)

text \<open>
  C4.  The validator is to accept exactly the non-empty strings of letters, digits,
  underscores and hyphens.  On the name \<open>abc\<close> followed by a line feed it does not reject:
  the name comes back accepted although not all of its characters are in the class, and
  \<open>add_script\<close> goes on to create the file whose name contains the line feed.
\<close>

theorem validate_accepts_trailing_newline:
  "validate_script_name (''abc'' @ [CHR 0x0A]) = Inr (''abc'' @ [CHR 0x0A]) \<and>
   \<not> list_all name_char (''abc'' @ [CHR 0x0A]) \<and>
   fst (add_script ''d0'' (''abc'' @ [CHR 0x0A]) ''pass'' empty_repo) = Inr () \<and>
   scripts_path (snd (add_script ''d0'' (''abc'' @ [CHR 0x0A]) ''pass'' empty_repo))
     (''abc'' @ [CHR 0x0A] @ ''.py'') = Some ''pass''"
  by (simp add: validate_script_name_def re_match_name_def name_char_def add_script_def
        empty_repo_def script_path_def save_metadata_def Let_def)

subsection \<open>Saving a result\<close>



subsection \<open>Adding a script\<close>



text \<open>
  C5.  For a name the validator accepts, \<open>add_script\<close> raises the ``already exists'' error
  exactly when a script file for the name is present, and then leaves the repository as it
  was.  Otherwise it succeeds: the content is written, the results are untouched, the
  metadata entry of the name has \<open>created = last_modified = now\<close>, no \<open>last_executed\<close> and a
  counter of zero, the other entries are unchanged, and \<open>metadata.json\<close> holds the new
  dictionary.
\<close>

theorem add_script_outcome:
  assumes "re_match_name n"
  shows "(fst (add_script now n content s)
            = Inl (ValueError (''Script '' @ quoted n @ '' already exists''))
          \<longleftrightarrow> scripts_path s (script_path n) \<noteq> None) \<and>
         (scripts_path s (script_path n) \<noteq> None \<longrightarrow> snd (add_script now n content s) = s) \<and>
         (scripts_path s (script_path n) = None \<longrightarrow>
            (case add_script now n content s of (r, s') \<Rightarrow>
               r = Inr () \<and>
               scripts_path s' = (scripts_path s)(script_path n \<mapsto> content) \<and>
               results_path s' = results_path s \<and>
               map_of (metadata s') = (map_of (metadata s))(n \<mapsto>
                 \<lparr>created = now, last_modified = now, last_executed = None,
                  execution_count = Some 0\<rparr>) \<and>
               metadata_path s' = metadata s'))"
proof (cases "scripts_path s (script_path n)")
  case None
  then show ?thesis
    using assms by (simp add: add_script_fresh update_conv')
next
  case (Some old)
  then show ?thesis
    using assms by (simp add: add_script_present)
qed

theorem add_script_outcome_witness:
  "re_match_name ''t1'' \<and>
   fst (add_script ''d1'' ''t1'' ''pass'' repo1)
     = Inl (ValueError (''Script '' @ quoted ''t1'' @ '' already exists'')) \<and>
   scripts_path repo1 (script_path ''t1'') \<noteq> None \<and>
   snd (add_script ''d1'' ''t1'' ''pass'' repo1) = repo1 \<and>
   scripts_path empty_repo (script_path ''t1'') = None \<and>
   fst (add_script ''d1'' ''t1'' ''pass'' empty_repo) = Inr () \<and>
   metadata_path (snd (add_script ''d1'' ''t1'' ''pass'' empty_repo)) =
     [(''t1'', \<lparr>created = ''d1'', last_modified = ''d1'', last_executed = None,
               execution_count = Some 0\<rparr>)]"
proof -
  have v: "re_match_name ''t1''" by (rule re_match_t1)
  have p: "scripts_path repo1 (script_path ''t1'') \<noteq> None"
    by (simp add: repo1_def script_path_def)
  have f: "scripts_path empty_repo (script_path ''t1'') = None"
    by (simp add: empty_repo_def)
  have m: "metadata_path (snd (add_script ''d1'' ''t1'' ''pass'' empty_repo)) =
     [(''t1'', \<lparr>created = ''d1'', last_modified = ''d1'', last_executed = None,
               execution_count = Some 0\<rparr>)]"
    by (subst add_script_fresh [OF v f]) (simp add: empty_repo_def)
  show ?thesis
    using v p f m
      add_script_outcome [OF v, where now = "''d1''" and content = "''pass''" and s = repo1]
      add_script_outcome [OF v, where now = "''d1''" and content = "''pass''" and s = empty_repo]
    by (simp split: prod.splits)
qed

subsection \<open>Script files and metadata entries stay in agreement\<close>

lemma consistent_add: "consistent s \<Longrightarrow> consistent (snd (add_script now n c s))"
proof (cases "re_match_name n")
  case False
  assume "consistent s"
  with False show ?thesis by (simp add: rejected_name_no_effect)
next
  case True
  assume c: "consistent s"
  show ?thesis
  proof (cases "scripts_path s (script_path n)")
    case None
    with True c show ?thesis
      by (simp add: add_script_fresh consistent_def update_conv' script_path_inj)
  next
    case (Some old)
    with True c show ?thesis by (simp add: add_script_present)
  qed
qed

lemma consistent_edit: "consistent s \<Longrightarrow> consistent (snd (edit_script now n c s))"
proof (cases "re_match_name n")
  case False
  assume "consistent s"
  with False show ?thesis by (simp add: rejected_name_no_effect)
next
  case True
  assume c: "consistent s"
  show ?thesis
  proof (cases "scripts_path s (script_path n)")
    case None
    with True c show ?thesis by (simp add: edit_script_absent)
  next
    case (Some old)
    with c obtain m where m: "map_of (metadata s) n = Some m"
      unfolding consistent_def by (metis option.distinct(1) option.exhaust)
    from True Some m have "edit_script now n c s =
      (Inr (), s\<lparr>scripts_path := (scripts_path s)(script_path n \<mapsto> c),
               metadata := AList.update n (m\<lparr>last_modified := now\<rparr>) (metadata s),
               metadata_path := AList.update n (m\<lparr>last_modified := now\<rparr>) (metadata s)\<rparr>)"
      by (simp add: edit_script_present)
    with c show ?thesis
      by (simp add: consistent_def update_conv' script_path_inj)
  qed
qed

lemma consistent_remove: "consistent s \<Longrightarrow> consistent (snd (remove_script n s))"
proof (cases "re_match_name n")
  case False
  assume "consistent s"
  with False show ?thesis by (simp add: rejected_name_no_effect)
next
  case True
  assume c: "consistent s"
  show ?thesis
  proof (cases "scripts_path s (script_path n)")
    case None
    with True c show ?thesis by (simp add: remove_script_absent)
  next
    case (Some old)
    with True c show ?thesis
      by (simp add: consistent_def remove_script_present script_path_inj)
  qed
qed

lemma consistent_save_result: "consistent s \<Longrightarrow> consistent (snd (save_result now n r s))"
proof (cases "re_match_name n")
  case False
  assume "consistent s"
  with False show ?thesis by (simp add: rejected_name_no_effect)
next
  case True
  assume c: "consistent s"
  show ?thesis
  proof (cases "map_of (metadata s) n")
    case None
    with True c show ?thesis by (simp add: save_result_absent consistent_def)
  next
    case (Some m)
    with True c show ?thesis
      by (auto simp add: save_result_present consistent_def update_conv')
  qed
qed

lemma consistent_repo1: "consistent repo1"
  by (auto simp add: consistent_def repo1_def script_path_def)

text \<open>
  C6.  From a repository in which, for every name, a metadata entry exists exactly when the
  script file exists, each of \<open>add_script\<close>, \<open>edit_script\<close>, \<open>get_script\<close>, \<open>remove_script\<close>,
  \<open>save_result\<close> and \<open>get_result\<close> leaves a repository with the same property, for any
  name, accepted or not; \<open>list_scripts\<close> only reads.  In such a repository \<open>edit_script\<close>
  never meets a missing dictionary key.
\<close>

theorem existence_agreement_preserved:
  assumes "consistent s"
  shows "consistent (snd (add_script now n c s)) \<and>
         consistent (snd (edit_script now n c s)) \<and>
         consistent (snd (get_script n s)) \<and>
         consistent (snd (remove_script n s)) \<and>
         consistent (snd (save_result now n r s)) \<and>
         consistent (snd (get_result n s)) \<and>
         fst (edit_script now n c s) \<noteq> Inl (KeyError n)"
proof -
  have "fst (edit_script now n c s) \<noteq> Inl (KeyError n)"
  proof (cases "re_match_name n")
    case False
    then show ?thesis by (simp add: rejected_name_no_effect)
  next
    case True
    show ?thesis
    proof (cases "scripts_path s (script_path n)")
      case None
      with True show ?thesis by (simp add: edit_script_absent)
    next
      case (Some old)
      with assms obtain m where "map_of (metadata s) n = Some m"
        unfolding consistent_def by (metis option.distinct(1) option.exhaust)
      with True Some show ?thesis by (simp add: edit_script_present)
    qed
  qed
  with assms show ?thesis
    by (simp add: consistent_add consistent_edit consistent_remove consistent_save_result
          get_script_state get_result_state)
qed

theorem existence_agreement_preserved_witness:
  "consistent repo1 \<and>
   consistent (snd (remove_script ''t1'' repo1)) \<and>
   consistent (snd (add_script ''d1'' ''t2'' ''pass'' repo1)) \<and>
   consistent (snd (edit_script ''d1'' ''t1'' ''pass'' repo1)) \<and>
   consistent (snd (save_result ''d1'' ''t1'' ''ok'' repo1))"
  using consistent_repo1
    existence_agreement_preserved [OF consistent_repo1, where n = "''t1''" and now = "''d1''"
      and c = "''pass''" and r = "''ok''"]
    existence_agreement_preserved [OF consistent_repo1, where n = "''t2''" and now = "''d1''"
      and c = "''pass''" and r = "''ok''"]
  by simp

subsection \<open>Missing results and removed scripts\<close>

text \<open>
  C9.  For a name the validator accepts, \<open>get_result\<close> returns the message ``No execution
  results found for script'' as an ordinary value, with the repository unchanged, whenever
  no result file exists for the name.  After \<open>remove_script\<close>, \<open>get_script\<close> raises
  ``not found'', and after a \<open>remove_script\<close> that succeeded \<open>get_result\<close> returns that
  message.
\<close>

theorem get_result_soft_miss:
  assumes "re_match_name n"
  shows "(results_path s (result_path n) = None \<longrightarrow>
            get_result n s = (Inr (''No execution results found for script '' @ quoted n), s)) \<and>
         fst (get_script n (snd (remove_script n s)))
            = Inl (ValueError (''Script '' @ quoted n @ '' not found'')) \<and>
         (fst (remove_script n s) = Inr () \<longrightarrow>
            fst (get_result n (snd (remove_script n s)))
              = Inr (''No execution results found for script '' @ quoted n))"
proof (cases "scripts_path s (script_path n)")
  case None
  with assms show ?thesis
    by (simp add: remove_script_absent get_script_absent get_result_absent)
next
  case (Some old)
  with assms show ?thesis
    by (simp add: remove_script_present get_script_absent get_result_absent)
qed

theorem get_result_soft_miss_witness:
  "re_match_name ''t1'' \<and>
   results_path repo1 (result_path ''t1'') = None \<and>
   get_result ''t1'' repo1 = (Inr (''No execution results found for script '' @ quoted ''t1''), repo1) \<and>
   fst (get_result ''t1'' repo2) = Inr ''hi'' \<and>
   fst (remove_script ''t1'' repo2) = Inr () \<and>
   fst (get_script ''t1'' (snd (remove_script ''t1'' repo2)))
      = Inl (ValueError (''Script '' @ quoted ''t1'' @ '' not found'')) \<and>
   fst (get_result ''t1'' (snd (remove_script ''t1'' repo2)))
      = Inr (''No execution results found for script '' @ quoted ''t1'')"
proof -
  have v: "re_match_name ''t1''" by (rule re_match_t1)
  have a: "results_path repo1 (result_path ''t1'') = None"
    by (simp add: repo1_def)
  have m: "map_of (metadata repo1) ''t1'' \<noteq> None"
    by (simp add: repo1_def)
  have r: "results_path repo2 (result_path ''t1'') = Some ''hi''"
    using v m unfolding repo2_def by (auto simp add: save_result_present)
  have p: "scripts_path repo2 (script_path ''t1'') \<noteq> None"
    using v m unfolding repo2_def
    by (auto simp add: save_result_present) (simp add: repo1_def script_path_def)
  have ok: "fst (remove_script ''t1'' repo2) = Inr ()"
    using v p by (rule remove_script_present)
  show ?thesis
    using v a ok get_result_present [OF v r]
      get_result_soft_miss [OF v, where s = repo1]
      get_result_soft_miss [OF v, where s = repo2]
    by simp
qed

subsection \<open>Editing, and script files without metadata\<close>

text \<open>
  C3, as stated, does not hold.  With a metadata entry for \<open>a\<close> but no script file,
  \<open>edit_script\<close> raises ``not found'' although the entry exists.  With a script file for \<open>a\<close>
  but no metadata entry, \<open>edit_script\<close> does not raise ``not found'': it overwrites the
  file and then raises \<open>KeyError\<close> on the dictionary lookup.
\<close>

theorem edit_orphan_counterexample:
  "map_of (metadata dangling_repo) ''a'' \<noteq> None \<and>
   fst (edit_script ''d1'' ''a'' ''y'' dangling_repo)
     = Inl (ValueError (''Script '' @ quoted ''a'' @ '' not found'')) \<and>
   map_of (metadata orphan_repo) ''a'' = None \<and>
   scripts_path orphan_repo (script_path ''a'') = Some ''x'' \<and>
   edit_script ''d1'' ''a'' ''y'' orphan_repo
     = (Inl (KeyError ''a''), orphan_repo\<lparr>scripts_path := [''a.py'' \<mapsto> ''y'']\<rparr>)"
  by (simp add: edit_script_def validate_script_name_def re_match_name_def name_char_def
        dangling_repo_def orphan_repo_def script_path_def Let_def)

text \<open>
  C3, amended.  For a name the validator accepts, \<open>edit_script\<close> raises ``not found''
  exactly when no script file exists for the name.  In a repository where the script file
  of the name exists and its metadata entry does not, the operations other than
  \<open>edit_script\<close> cope: \<open>add_script\<close> raises ``already exists'' and changes nothing,
  \<open>get_script\<close> returns the content, \<open>remove_script\<close> succeeds and deletes the file without
  touching the dictionary, \<open>save_result\<close> succeeds without touching the dictionary,
  \<open>get_result\<close> returns a text, and \<open>list_scripts\<close> lists exactly the names of the
  dictionary.
\<close>

theorem edit_not_found_and_orphan_tolerance:
  assumes "re_match_name n"
  shows "(fst (edit_script now n content s)
            = Inl (ValueError (''Script '' @ quoted n @ '' not found''))
          \<longleftrightarrow> scripts_path s (script_path n) = None) \<and>
         (\<forall>old. scripts_path s (script_path n) = Some old \<and> map_of (metadata s) n = None \<longrightarrow>
            add_script now n content s
              = (Inl (ValueError (''Script '' @ quoted n @ '' already exists'')), s) \<and>
            get_script n s = (Inr old, s) \<and>
            fst (remove_script n s) = Inr () \<and>
            scripts_path (snd (remove_script n s)) (script_path n) = None \<and>
            metadata (snd (remove_script n s)) = metadata s \<and>
            fst (save_result now n r s) = Inr () \<and>
            metadata (snd (save_result now n r s)) = metadata s \<and>
            (\<exists>t. get_result n s = (Inr t, s)) \<and>
            name ` set (list_scripts s) = fst ` set (metadata s))"
proof (cases "scripts_path s (script_path n)")
  case None
  with assms show ?thesis by (simp add: edit_script_absent)
next
  case (Some old)
  have e: "fst (edit_script now n content s)
             \<noteq> Inl (ValueError (''Script '' @ quoted n @ '' not found''))"
  proof (cases "map_of (metadata s) n")
    case None
    with assms Some show ?thesis by (simp add: edit_script_orphan)
  next
    case (Some m)
    with assms \<open>scripts_path s (script_path n) = Some old\<close> show ?thesis
      by (simp add: edit_script_present)
  qed
  have l: "name ` set (list_scripts s) = fst ` set (metadata s)"
    by (force simp add: list_scripts_def image_iff split: prod.splits)
  have g: "\<exists>t. get_result n s = (Inr t, s)"
    using assms by (cases "results_path s (result_path n)")
      (simp_all add: get_result_absent get_result_present)
  have rm: "map_of (metadata s) n = None \<Longrightarrow> metadata (snd (remove_script n s)) = metadata s"
    using assms Some by (simp add: remove_script_def validate_accepted Let_def)
  from assms Some e l g rm show ?thesis
    by (simp add: add_script_present get_script_present remove_script_present
          save_result_absent)
qed

theorem edit_not_found_and_orphan_tolerance_witness:
  "re_match_name ''a'' \<and>
   scripts_path orphan_repo (script_path ''a'') = Some ''x'' \<and>
   map_of (metadata orphan_repo) ''a'' = None \<and>
   fst (edit_script ''d1'' ''a'' ''y'' orphan_repo)
     \<noteq> Inl (ValueError (''Script '' @ quoted ''a'' @ '' not found'')) \<and>
   fst (edit_script ''d1'' ''a'' ''y'' empty_repo)
     = Inl (ValueError (''Script '' @ quoted ''a'' @ '' not found'')) \<and>
   get_script ''a'' orphan_repo = (Inr ''x'', orphan_repo) \<and>
   fst (remove_script ''a'' orphan_repo) = Inr () \<and>
   fst (save_result ''d1'' ''a'' ''ok'' orphan_repo) = Inr ()"
proof -
  have v: "re_match_name ''a''"
    by (simp add: re_match_name_def name_char_def)
  have p: "scripts_path orphan_repo (script_path ''a'') = Some ''x''"
    by (simp add: orphan_repo_def script_path_def)
  have m: "map_of (metadata orphan_repo) ''a'' = None"
    by (simp add: orphan_repo_def)
  have f: "scripts_path empty_repo (script_path ''a'') = None"
    by (simp add: empty_repo_def)
  show ?thesis
    using v p m f
      edit_not_found_and_orphan_tolerance [OF v, where s = orphan_repo and now = "''d1''"
        and content = "''y''" and r = "''ok''"]
      edit_not_found_and_orphan_tolerance [OF v, where s = empty_repo and now = "''d1''"
        and content = "''y''" and r = "''ok''"]
    by simp
qed

section \<open>Properties of the harness\<close>

subsection \<open>What execute returns\<close>




text \<open>\<open>str_nat\<close> writes the decimal numeral of its argument.\<close>

lemma digits_value_snoc: "digits_value (ds @ [c]) = 10 * digits_value ds + (of_char c - 48)"
  by (simp add: digits_value_def)

lemma digit_char: "k < 10 \<Longrightarrow> of_char (char_of (48 + k)) = (48 + k :: nat)"
  by (simp add: of_char_of)

lemma str_nat_value: "digits_value (str_nat k) = k"
proof (induction k rule: str_nat.induct)
  case (1 k)
  show ?case
  proof (cases "k < 10")
    case True
    then show ?thesis
      by (subst str_nat.simps) (simp add: digits_value_def digit_char)
  next
    case False
    with 1 have "digits_value (str_nat (k div 10)) = k div 10" by simp
    with False show ?thesis
      by (subst str_nat.simps) (simp add: digits_value_snoc digit_char)
  qed
qed




subsection \<open>The envelope\<close>












end
